theory Spec2Isabelle
  imports Complex_Main "HOL-Library.Option_ord" "HOL-Library.Multiset"
begin

section \<open>Employee churn dashboard (app7.py): data model\<close>

text \<open>
  The dashboard keeps two tables that are loaded once (\<open>q.app.predictions\<close> and
  \<open>q.app.shapley\<close>) and renders cards from them.  Floating point numbers of the tables
  are modelled as exact reals; a missing number (pandas' NaN, which is what the mean of an
  empty selection is) is \<open>None\<close> of \<open>real option\<close>.  Python exceptions are values of
  \<open>error\<close>.
\<close>

datatype error = ZeroDivisionError | ValueError | KeyError | TypeError

datatype cell = IntCell int | NumCell real | StrCell string

text \<open>
  One row of the predictions table.  The three columns the code names are fields;
  every other column of the row is kept by name in \<open>other\<close>.
\<close>

record prediction_row =
  EmployeeNumber :: int
  YearsAtCompany :: real
  Prediction :: real
  other :: "(string \<times> cell) list"

text \<open>The attribution table, column by column: a column name and its (non-missing) values.\<close>

type_synonym shapley_column = "string \<times> real list"

section \<open>Threshold filter and statistics (home, lines 114-123)\<close>

text \<open>\<^verbatim>\<open>q.app.predictions[q.app.predictions['Prediction'] > threshold]\<close>\<close>

definition churned_employees :: "prediction_row list \<Rightarrow> real \<Rightarrow> prediction_row list" where
  "churned_employees predictions threshold =
     filter (\<lambda>row. Prediction row > threshold) predictions"

text \<open>pandas' \<open>Series.mean()\<close>: sum over count, NaN for an empty series.\<close>

definition mean :: "real list \<Rightarrow> real option" where
  "mean xs = (if xs = [] then None else Some (sum_list xs / real (length xs)))"

text \<open>
  Python's \<open>round(x)\<close> with one argument: the nearest integer, a tie going to the even
  neighbour; \<open>round(nan)\<close> raises ValueError.
\<close>

definition round_half_even :: "real \<Rightarrow> int" where
  "round_half_even x =
     (let f = \<lfloor>x\<rfloor>; d = x - of_int f
      in if d < 1 / 2 then f
         else if 1 / 2 < d then f + 1
         else if even f then f else f + 1)"

definition py_round :: "real option \<Rightarrow> error + int" where
  "py_round x = (case x of None \<Rightarrow> Inl ValueError | Some v \<Rightarrow> Inr (round_half_even v))"

text \<open>
  The three values of the stats card, before they are formatted as text:
  \<open>len(churned_employees)\<close>, \<open>len(churned_employees)/len(q.app.predictions)\<close> and
  \<open>round(churned_employees.YearsAtCompany.mean())\<close>, evaluated in this order.
\<close>

record stats =
  number_of_employees :: nat
  fraction_of_employees :: real
  average_years :: int

definition py_div :: "nat \<Rightarrow> nat \<Rightarrow> error + real" where
  "py_div a b = (if b = 0 then Inl ZeroDivisionError else Inr (real a / real b))"

definition stats_card :: "prediction_row list \<Rightarrow> prediction_row list \<Rightarrow> error + stats" where
  "stats_card churned predictions =
     (case py_div (length churned) (length predictions) of
        Inl e \<Rightarrow> Inl e
      | Inr fraction \<Rightarrow>
          (case py_round (mean (map YearsAtCompany churned)) of
             Inl e \<Rightarrow> Inl e
           | Inr years \<Rightarrow>
               Inr \<lparr>number_of_employees = length churned,
                    fraction_of_employees = fraction,
                    average_years = years\<rparr>))"

section \<open>Feature importance ranker (get_varimp, lines 145-153)\<close>

text \<open>\<open>str.startswith\<close> and the substring test \<open>sub in s\<close> of Python.\<close>

fun is_prefix :: "string \<Rightarrow> string \<Rightarrow> bool" where
  "is_prefix [] s = True"
| "is_prefix (a # sub) [] = False"
| "is_prefix (a # sub) (c # s) = (a = c \<and> is_prefix sub s)"

fun contains :: "string \<Rightarrow> string \<Rightarrow> bool" where
  "contains sub [] = (sub = [])"
| "contains sub (c # s) = (is_prefix sub (c # s) \<or> contains sub s)"

text \<open>
  \<open>str.replace(old, new)\<close>: scanning from the left, every occurrence of \<open>old\<close> that
  starts at the current position is replaced and the scan goes on behind it.  The code
  calls it with the non-empty \<open>old = "contrib_"\<close> only.
\<close>

fun str_replace :: "string \<Rightarrow> string \<Rightarrow> string \<Rightarrow> string" where
  "str_replace old new [] = []"
| "str_replace old new (c # s) =
     (if old \<noteq> [] \<and> is_prefix old (c # s)
      then new @ str_replace old new (drop (length old) (c # s))
      else c # str_replace old new s)"

text \<open>The column filter of line 146: \<open>'contrib' in i and i != 'contrib_bias'\<close>.\<close>

definition is_feature :: "string \<Rightarrow> bool" where
  "is_feature i = (contains ''contrib'' i \<and> i \<noteq> ''contrib_bias'')"

text \<open>
  \<open>sort_values(by="Importance", ascending=False)\<close>: the rows with a number by
  descending importance, the rows whose importance is NaN behind them.  pandas sorts
  with its default algorithm (quicksort), which does not fix the order of rows of equal
  importance; here they keep the order they had, and no statement below depends on the
  order of rows of equal importance.
\<close>

definition sort_values_desc :: "(string \<times> real option) list \<Rightarrow> (string \<times> real option) list" where
  "sort_values_desc rows =
     sort_key (\<lambda>r. - the (snd r)) (filter (\<lambda>r. snd r \<noteq> None) rows)
       @ filter (\<lambda>r. snd r = None) rows"

text \<open>
  \<open>get_varimp(shapley_vals, top_n=5)\<close>: line by line, select the columns, take the mean
  of the absolute values of each, rename, sort, keep the head and reverse.  \<open>top_n\<close> is a
  number of rows.
\<close>

definition get_varimp :: "shapley_column list \<Rightarrow> nat \<Rightarrow> (string \<times> real option) list" where
  "get_varimp shapley_vals top_n =
     (let varimp = filter (\<lambda>(i, vals). is_feature i) shapley_vals;
          varimp = map (\<lambda>(i, vals). (i, mean (map abs vals))) varimp;
          varimp = map (\<lambda>(feature, importance).
                     (str_replace ''contrib_'' [] feature, importance)) varimp;
          varimp = take top_n (sort_values_desc varimp)
      in rev varimp)"

section \<open>The page and the handlers\<close>

text \<open>
  The cards of the page, each with the data the code passes to it.  The layout, the chart
  library and the formatting of numbers as text belong to the UI framework and are not
  modelled: a card carries its values as they are computed.
\<close>

type_synonym table_row = "int \<times> cell list"

datatype card =
    MetaCard
  | HeaderCard
  | FooterCard
  | VegaCard "prediction_row list"
  | PlotCard "(string \<times> real option) list"
  | TextCard
  | SliderCard "real option"
  | StatsCard stats
  | TableCard "string list" "table_row list"

text \<open>
  The handlers \<open>run_on\<close> can dispatch to, one for each function marked \<open>@on()\<close>.
\<close>

datatype handler = Home | Threshold | RenderEmployee

text \<open>
  The query context \<open>q\<close>: the loaded tables (\<open>q.app\<close>), the state of the browser session
  (\<open>q.client\<close>), the page, and what the current request carries: \<open>q.args.threshold\<close>
  (\<open>None\<close> when absent) and the handlers that the framework's \<open>run_on\<close> invokes for the
  request, in order.  An attribute of \<open>q.client\<close> that was never set reads as \<open>None\<close>.

  \<open>threshold_writes\<close> is not an attribute of the code: it is the history of the
  assignments to \<open>q.client.threshold\<close>, the assigned values in the order in which the
  assignments are executed, so that the number of writes can be stated.  Every
  assignment to \<open>q.client.threshold\<close> in the code appends to it, and nothing reads it.
\<close>

record Q =
  app_predictions :: "prediction_row list"
  app_shapley :: "shapley_column list"
  client_initialized :: bool
  client_dark_mode :: bool
  client_threshold :: "real option"
  threshold_writes :: "real list"
  client_cards :: "string set"
  page :: "string \<rightharpoonup> card"
  args_threshold :: "real option"
  triggered :: "handler list"

definition add_card :: "Q \<Rightarrow> string \<Rightarrow> card \<Rightarrow> Q" where
  "add_card q name c =
     q\<lparr>client_cards := insert name (client_cards q), page := (page q)(name \<mapsto> c)\<rparr>"

text \<open>\<open>clear_cards(q)\<close> with the default \<open>ignore=[]\<close>.\<close>

definition clear_cards :: "Q \<Rightarrow> Q" where
  "clear_cards q =
     q\<lparr>page := (\<lambda>name. if name \<in> client_cards q then None else page q name),
       client_cards := {}\<rparr>"

text \<open>\<open>row[col]\<close> and \<open>row[cols]\<close>: a column that the row does not have is a KeyError.\<close>

definition row_get :: "prediction_row \<Rightarrow> string \<Rightarrow> cell option" where
  "row_get row col =
     (if col = ''EmployeeNumber'' then Some (IntCell (EmployeeNumber row))
      else if col = ''YearsAtCompany'' then Some (NumCell (YearsAtCompany row))
      else if col = ''Prediction'' then Some (NumCell (Prediction row))
      else map_of (other row) col)"

fun row_cells :: "prediction_row \<Rightarrow> string list \<Rightarrow> error + cell list" where
  "row_cells row [] = Inr []"
| "row_cells row (col # cols) =
     (case row_get row col of
        None \<Rightarrow> Inl KeyError
      | Some k \<Rightarrow>
          (case row_cells row cols of Inl e \<Rightarrow> Inl e | Inr ks \<Rightarrow> Inr (k # ks)))"

fun table_rows :: "string list \<Rightarrow> prediction_row list \<Rightarrow> error + table_row list" where
  "table_rows cols [] = Inr []"
| "table_rows cols (row # rows) =
     (case row_cells row cols of
        Inl e \<Rightarrow> Inl e
      | Inr cells \<Rightarrow>
          (case table_rows cols rows of
             Inl e \<Rightarrow> Inl e
           | Inr trs \<Rightarrow> Inr ((EmployeeNumber row, cells) # trs)))"

text \<open>
  \<open>home(q)\<close>.  The cards are added one after the other; an exception leaves the cards
  added so far and is returned with the context.  pandas compares a column of numbers
  with \<open>None\<close> as False in every row, so a threshold that is \<open>None\<close> selects no row.
\<close>

definition home :: "Q \<Rightarrow> Q \<times> error option" where
  "home q0 =
     (let q1 = clear_cards q0;
          q2 = add_card q1 ''predictions_card'' (VegaCard (app_predictions q1));
          varimp = get_varimp (app_shapley q2) 5;
          q3 = add_card q2 ''varimp_card'' (PlotCard varimp);
          threshold = (if args_threshold q3 = None then client_threshold q3
                       else args_threshold q3);
          q4 = add_card q3 ''description_card'' TextCard;
          q5 = add_card q4 ''threshold_card'' (SliderCard threshold);
          churned = (case threshold of
                       None \<Rightarrow> []
                     | Some t \<Rightarrow> churned_employees (app_predictions q5) t)
      in case stats_card churned (app_predictions q5) of
           Inl e \<Rightarrow> (q5, Some e)
         | Inr s \<Rightarrow>
             (let q6 = add_card q5 ''stats_card'' (StatsCard s);
                  cols = [''EmployeeNumber''] @ map fst varimp @ [''Prediction'']
              in case table_rows cols churned of
                   Inl e \<Rightarrow> (q6, Some e)
                 | Inr trs \<Rightarrow>
                     (add_card q6 ''table_card'' (TableCard cols trs), None)))"

definition threshold :: "Q \<Rightarrow> Q \<times> error option" where
  "threshold q = home q"

text \<open>
  \<open>render_employee(q)\<close> starts with \<open>q['table_card']\<close>; the query context has no item
  access, so the handler stops there with a TypeError and changes nothing.
\<close>

definition render_employee :: "Q \<Rightarrow> Q \<times> error option" where
  "render_employee q = (q, Some TypeError)"

text \<open>\<open>init(q)\<close>: the first visit of a browser.\<close>

definition init :: "Q \<Rightarrow> Q \<times> error option" where
  "init q =
     (let q1 = q\<lparr>client_cards := {}, client_dark_mode := False\<rparr>;
          q2 = q1\<lparr>page := (page q1)(''meta'' \<mapsto> MetaCard, ''header'' \<mapsto> HeaderCard,
                                      ''footer'' \<mapsto> FooterCard)\<rparr>;
          q3 = q2\<lparr>client_threshold := Some (1 / 2),
                  threshold_writes := threshold_writes q2 @ [1 / 2]\<rparr>
      in home q3)"

fun run_handler :: "handler \<Rightarrow> Q \<Rightarrow> Q \<times> error option" where
  "run_handler Home q = home q"
| "run_handler Threshold q = threshold q"
| "run_handler RenderEmployee q = render_employee q"

fun run_on :: "handler list \<Rightarrow> Q \<Rightarrow> Q \<times> error option" where
  "run_on [] q = (q, None)"
| "run_on (h # hs) q =
     (case run_handler h q of
        (q', Some e) \<Rightarrow> (q', Some e)
      | (q', None) \<Rightarrow> run_on hs q')"

text \<open>
  \<open>serve(q)\<close> without the loading of the tables, which are part of \<open>q\<close> here: the
  first visit runs \<open>init\<close> and marks the session initialized if \<open>init\<close> returns; then
  the handlers of the request run.  (\<open>q.page.save()\<close> only transmits the page.)
\<close>

definition serve :: "Q \<Rightarrow> Q \<times> error option" where
  "serve q =
     (case (if \<not> client_initialized q
            then (case init q of
                    (q1, Some e) \<Rightarrow> (q1, Some e)
                  | (q1, None) \<Rightarrow> (q1\<lparr>client_initialized := True\<rparr>, None))
            else (q, None)) of
        (q1, Some e) \<Rightarrow> (q1, Some e)
      | (q1, None) \<Rightarrow> run_on (triggered q1) q1)"

text \<open>
  A session is a sequence of requests to \<open>serve\<close>.  The tables, the client state and the
  page are kept from one request to the next (also after an exception, which the server
  reports); the arguments are those of the request.
\<close>

record request =
  req_threshold :: "real option"
  req_handlers :: "handler list"

definition receive :: "Q \<Rightarrow> request \<Rightarrow> Q" where
  "receive q r = q\<lparr>args_threshold := req_threshold r, triggered := req_handlers r\<rparr>"

fun session :: "Q \<Rightarrow> request list \<Rightarrow> Q" where
  "session q [] = q"
| "session q (r # rs) = session (fst (serve (receive q r))) rs"

text \<open>
  A browser that has not visited the app yet: nothing of \<open>q.client\<close> is set and
  nothing has been written.
\<close>

definition fresh :: "prediction_row list \<Rightarrow> shapley_column list \<Rightarrow> Q" where
  "fresh predictions shapley =
     \<lparr>app_predictions = predictions, app_shapley = shapley,
      client_initialized = False, client_dark_mode = False, client_threshold = None,
      threshold_writes = [], client_cards = {}, page = Map.empty, args_threshold = None,
      triggered = []\<rparr>"

section \<open>Example tables\<close>

text \<open>
  Two employees, the first with score 0.6 and four years at the company, the second with
  score 0.3 and two years; and an attribution table with two features and the bias.
\<close>

definition example_predictions :: "prediction_row list" where
  "example_predictions =
     [\<lparr>EmployeeNumber = 1, YearsAtCompany = 4, Prediction = 6 / 10,
        other = [(''A'', NumCell 1), (''B'', StrCell ''Yes'')]\<rparr>,
      \<lparr>EmployeeNumber = 2, YearsAtCompany = 2, Prediction = 3 / 10,
        other = [(''A'', NumCell 2), (''B'', StrCell ''No'')]\<rparr>]"

definition example_shapley :: "shapley_column list" where
  "example_shapley =
     [(''contrib_A'', [9 / 10, - 9 / 10]),
      (''contrib_B'', [- 3 / 10, 3 / 10]),
      (''contrib_bias'', [1 / 10, 1 / 10])]"

section \<open>Properties of the threshold filter\<close>

lemma churned_employees_antimono:
  "t1 \<le> t2 \<Longrightarrow> length (churned_employees ps t2) \<le> length (churned_employees ps t1)"
proof (induction ps)
  case Nil
  show ?case by (simp add: churned_employees_def)
next
  case (Cons p ps)
  then show ?case by (auto simp: churned_employees_def)
qed

lemma round_half_even_nearest: "\<bar>real_of_int (round_half_even x) - x\<bar> \<le> 1 / 2"
proof -
  have "real_of_int \<lfloor>x\<rfloor> \<le> x" and "x < real_of_int \<lfloor>x\<rfloor> + 1"
    by linarith+
  then show ?thesis
    by (auto simp: round_half_even_def Let_def)
qed

lemma set_churned_employees:
  "set (churned_employees ps t) = {r \<in> set ps. t < Prediction r}"
  by (simp add: churned_employees_def)

lemma length_churned_employees_le: "length (churned_employees ps t) \<le> length ps"
  by (simp add: churned_employees_def)

lemma churned_employees_all:
  "(\<forall>r \<in> set ps. t < Prediction r) \<Longrightarrow> churned_employees ps t = ps"
  by (simp add: churned_employees_def)

lemma churned_employees_none:
  "(\<forall>r \<in> set ps. Prediction r \<le> t) \<Longrightarrow> churned_employees ps t = []"
  by (auto simp: churned_employees_def filter_empty_conv)

lemma count_list_churned_employees:
  "count_list (churned_employees ps t) r = (if t < Prediction r then count_list ps r else 0)"
  by (induction ps) (auto simp: churned_employees_def)

lemma stats_card_empty_table:
  "stats_card churned [] = Inl ZeroDivisionError"
  by (simp add: stats_card_def py_div_def)

lemma stats_card_empty_selection:
  "predictions \<noteq> [] \<Longrightarrow> stats_card [] predictions = Inl ValueError"
  by (simp add: stats_card_def py_div_def py_round_def mean_def)

lemma stats_card_selection:
  "predictions \<noteq> [] \<Longrightarrow> churned \<noteq> [] \<Longrightarrow>
   stats_card churned predictions =
     Inr \<lparr>number_of_employees = length churned,
          fraction_of_employees = real (length churned) / real (length predictions),
          average_years =
            round_half_even (sum_list (map YearsAtCompany churned) / real (length churned))\<rparr>"
  by (simp add: stats_card_def py_div_def py_round_def mean_def)

text \<open>
  C5: for thresholds \<open>t1 < t2\<close> the number of rows selected at \<open>t1\<close> is at least the
  number selected at \<open>t2\<close>, for every predictions table.
\<close>

theorem filtered_count_monotone:
  assumes "t1 < t2"
  shows "length (churned_employees predictions t2) \<le> length (churned_employees predictions t1)"
  using assms churned_employees_antimono [of t1 t2 predictions] by simp

theorem filtered_count_monotone_witness:
  "(1 / 2 :: real) < 9 / 10
   \<and> length (churned_employees example_predictions (9 / 10))
       \<le> length (churned_employees example_predictions (1 / 2))"
  using filtered_count_monotone [of "1 / 2" "9 / 10" example_predictions] by simp

text \<open>
  C6: the filter selects exactly the rows whose score is strictly greater than the
  threshold (each as often as the table has it), and for a non-empty selection the stats
  are the number of selected rows, that number over the number of all rows, and an
  integer nearest to the mean of YearsAtCompany over the selected rows.  On the example
  table with threshold 0.5 the selection is the row of employee 1, with count 1,
  fraction 0.5 and average tenure 4.
\<close>

theorem threshold_filter_stats:
  "(r \<in> set (churned_employees predictions t) \<longleftrightarrow> r \<in> set predictions \<and> t < Prediction r)
   \<and> count_list (churned_employees predictions t) r
       = (if t < Prediction r then count_list predictions r else 0)
   \<and> (churned_employees predictions t \<noteq> [] \<longrightarrow>
       (\<exists>s. stats_card (churned_employees predictions t) predictions = Inr s
          \<and> number_of_employees s = length (churned_employees predictions t)
          \<and> fraction_of_employees s
              = real (length (churned_employees predictions t)) / real (length predictions)
          \<and> \<bar>real_of_int (average_years s)
               - sum_list (map YearsAtCompany (churned_employees predictions t))
                   / real (length (churned_employees predictions t))\<bar> \<le> 1 / 2))
   \<and> map EmployeeNumber (churned_employees example_predictions (1 / 2)) = [1]
   \<and> stats_card (churned_employees example_predictions (1 / 2)) example_predictions
       = Inr \<lparr>number_of_employees = 1, fraction_of_employees = 1 / 2, average_years = 4\<rparr>"
proof -
  have a: "r \<in> set (churned_employees predictions t) \<longleftrightarrow> r \<in> set predictions \<and> t < Prediction r"
    by (simp add: set_churned_employees)
  have b: "count_list (churned_employees predictions t) r
       = (if t < Prediction r then count_list predictions r else 0)"
    by (rule count_list_churned_employees)
  have c: "\<exists>s. stats_card (churned_employees predictions t) predictions = Inr s
          \<and> number_of_employees s = length (churned_employees predictions t)
          \<and> fraction_of_employees s
              = real (length (churned_employees predictions t)) / real (length predictions)
          \<and> \<bar>real_of_int (average_years s)
               - sum_list (map YearsAtCompany (churned_employees predictions t))
                   / real (length (churned_employees predictions t))\<bar> \<le> 1 / 2"
    if ne: "churned_employees predictions t \<noteq> []"
  proof -
    from ne have "predictions \<noteq> []" by (auto simp: churned_employees_def)
    note eq = stats_card_selection [OF this ne]
    show ?thesis
      unfolding eq
      using round_half_even_nearest
        [of "sum_list (map YearsAtCompany (churned_employees predictions t))
               / real (length (churned_employees predictions t))"]
      by simp
  qed
  have d: "map EmployeeNumber (churned_employees example_predictions (1 / 2)) = [1]"
    by (simp add: example_predictions_def churned_employees_def)
  have e: "stats_card (churned_employees example_predictions (1 / 2)) example_predictions
       = Inr \<lparr>number_of_employees = 1, fraction_of_employees = 1 / 2, average_years = 4\<rparr>"
    by (simp add: example_predictions_def churned_employees_def stats_card_def py_div_def
      py_round_def mean_def round_half_even_def)
  from a b c d e show ?thesis by blast
qed

theorem threshold_filter_stats_witness:
  "churned_employees example_predictions (1 / 2) \<noteq> []
   \<and> (\<exists>s. stats_card (churned_employees example_predictions (1 / 2)) example_predictions = Inr s
        \<and> number_of_employees s = length (churned_employees example_predictions (1 / 2)))"
proof -
  have ne: "churned_employees example_predictions (1 / 2) \<noteq> []"
    by (simp add: example_predictions_def churned_employees_def)
  with threshold_filter_stats [of "hd example_predictions" example_predictions "1 / 2"]
  show ?thesis by blast
qed

text \<open>
  C7: for every threshold, the stats computation on a table without rows fails with
  ZeroDivisionError, and on a table with at least one row it never fails with
  ZeroDivisionError.
\<close>

theorem stats_division_error:
  "(predictions = [] \<longrightarrow>
      stats_card (churned_employees predictions t) predictions = Inl ZeroDivisionError)
   \<and> (predictions \<noteq> [] \<longrightarrow>
      stats_card (churned_employees predictions t) predictions \<noteq> Inl ZeroDivisionError)"
  by (auto simp: stats_card_def py_div_def py_round_def churned_employees_def
      split: sum.splits option.splits)

theorem stats_division_error_witness:
  "stats_card (churned_employees [] (1 / 2)) [] = Inl ZeroDivisionError
   \<and> example_predictions \<noteq> []
   \<and> stats_card (churned_employees example_predictions (1 / 2)) example_predictions
       \<noteq> Inl ZeroDivisionError"
  using stats_division_error [of "[]" "1 / 2"]
    stats_division_error [of example_predictions "1 / 2"]
  by (simp add: example_predictions_def)

text \<open>
  C2, as the code has it: for a non-empty table the fraction is defined and lies in
  \<open>[0, 1]\<close>; it is 1 when the threshold is strictly less than the least score and 0 when
  the threshold is at least the greatest score.  It is the fraction that the stats card
  shows whenever the card is built.
\<close>

theorem fraction_bounds:
  assumes "predictions \<noteq> []"
  shows "\<exists>f. py_div (length (churned_employees predictions t)) (length predictions) = Inr f
           \<and> 0 \<le> f \<and> f \<le> 1
           \<and> (t < Min (Prediction ` set predictions) \<longrightarrow> f = 1)
           \<and> (Max (Prediction ` set predictions) \<le> t \<longrightarrow> f = 0)
           \<and> (\<forall>s. stats_card (churned_employees predictions t) predictions = Inr s
                 \<longrightarrow> fraction_of_employees s = f)"
proof -
  let ?n = "length (churned_employees predictions t)"
  let ?f = "real ?n / real (length predictions)"
  from assms have pos: "0 < real (length predictions)" by simp
  have div: "py_div ?n (length predictions) = Inr ?f"
    using assms by (simp add: py_div_def)
  have lo: "0 \<le> ?f" by simp
  have "real ?n \<le> real (length predictions)"
    using length_churned_employees_le [of predictions t] by simp
  with pos have hi: "?f \<le> 1" by simp
  have fin: "finite (Prediction ` set predictions)" "Prediction ` set predictions \<noteq> {}"
    using assms by simp_all
  have one: "?f = 1" if "t < Min (Prediction ` set predictions)"
  proof -
    from that fin have "\<forall>r \<in> set predictions. t < Prediction r" by simp
    then have "churned_employees predictions t = predictions"
      by (rule churned_employees_all)
    with pos show ?thesis by simp
  qed
  have zero: "?f = 0" if "Max (Prediction ` set predictions) \<le> t"
  proof -
    from that fin have "\<forall>r \<in> set predictions. Prediction r \<le> t" by simp
    then have "churned_employees predictions t = []"
      by (rule churned_employees_none)
    then show ?thesis by simp
  qed
  have st: "fraction_of_employees s = ?f"
    if "stats_card (churned_employees predictions t) predictions = Inr s" for s
    using that div by (auto simp: stats_card_def split: sum.splits)
  from div lo hi one zero st show ?thesis by blast
qed

theorem fraction_bounds_witness:
  "example_predictions \<noteq> []
   \<and> (\<exists>f. py_div (length (churned_employees example_predictions (1 / 2)))
             (length example_predictions) = Inr f \<and> 0 \<le> f \<and> f \<le> 1)"
  using fraction_bounds [of example_predictions "1 / 2"]
  by (auto simp: example_predictions_def)

text \<open>
  With the threshold equal to the least score the row of that score is not selected, as
  the comparison is strict: on the example table the threshold 0.3 gives the fraction 0.5.
\<close>

theorem fraction_at_minimum_counterexample:
  "example_predictions \<noteq> []
   \<and> 3 / 10 \<le> Min (Prediction ` set example_predictions)
   \<and> py_div (length (churned_employees example_predictions (3 / 10)))
        (length example_predictions) = Inr (1 / 2)
   \<and> stats_card (churned_employees example_predictions (3 / 10)) example_predictions
       = Inr \<lparr>number_of_employees = 1, fraction_of_employees = 1 / 2, average_years = 4\<rparr>
   \<and> (1 / 2 :: real) \<noteq> 1"
  by (simp add: example_predictions_def churned_employees_def py_div_def stats_card_def
      py_round_def mean_def round_half_even_def)

section \<open>Properties of the feature importance ranker\<close>

lemma is_prefix_iff: "is_prefix sub s \<longleftrightarrow> (\<exists>t. s = sub @ t)"
  by (induction sub s rule: is_prefix.induct) auto

lemma contains_iff: "contains sub s \<longleftrightarrow> (\<exists>a b. s = a @ sub @ b)"
proof (induction s)
  case Nil
  show ?case by auto
next
  case (Cons c s)
  have "(\<exists>a b. c # s = a @ sub @ b) \<longleftrightarrow> (\<exists>t. c # s = sub @ t) \<or> (\<exists>a b. s = a @ sub @ b)"
  proof
    assume "\<exists>a b. c # s = a @ sub @ b"
    then obtain a b where ab: "c # s = a @ sub @ b" by blast
    show "(\<exists>t. c # s = sub @ t) \<or> (\<exists>a b. s = a @ sub @ b)"
    proof (cases a)
      case Nil
      with ab show ?thesis by auto
    next
      case (Cons x a')
      with ab have "s = a' @ sub @ b" by simp
      then show ?thesis by blast
    qed
  next
    assume "(\<exists>t. c # s = sub @ t) \<or> (\<exists>a b. s = a @ sub @ b)"
    then show "\<exists>a b. c # s = a @ sub @ b"
    proof
      assume "\<exists>t. c # s = sub @ t"
      then obtain t where "c # s = [] @ sub @ t" by auto
      then show ?thesis by blast
    next
      assume "\<exists>a b. s = a @ sub @ b"
      then obtain a b where "c # s = (c # a) @ sub @ b" by auto
      then show ?thesis by blast
    qed
  qed
  with Cons show ?case by (simp add: is_prefix_iff)
qed


lemma str_replace_at_front:
  "old \<noteq> [] \<Longrightarrow> str_replace old new (old @ s) = new @ str_replace old new s"
proof -
  assume ne: "old \<noteq> []"
  then obtain c t where ct: "old @ s = c # t" by (cases old) auto
  have "is_prefix old (old @ s)" by (simp add: is_prefix_iff)
  with ne ct have "str_replace old new (c # t) = new @ str_replace old new (drop (length old) (c # t))"
    by simp
  with ct show ?thesis by (metis append_eq_conv_conj)
qed

lemma is_prefix_long:
  assumes "a \<noteq> []" "old \<noteq> []"
  shows "is_prefix old (a @ old @ b) \<longleftrightarrow> is_prefix old (a @ butlast old)"
proof -
  have len: "length old \<le> length (a @ butlast old)"
    using assms by (cases a) auto
  have pre: "is_prefix p s \<longleftrightarrow> length p \<le> length s \<and> take (length p) s = p" for p s
    by (auto simp: is_prefix_iff) (metis append_take_drop_id)
  have "a @ old @ b = (a @ butlast old) @ (last old # b)"
    using assms by simp
  then have "take (length old) (a @ old @ b) = take (length old) (a @ butlast old)"
    using len by (metis append_Nil2 diff_is_0_eq' take_0 take_append)
  then show ?thesis
    using len by (simp add: pre)
qed

lemma str_replace_first_occurrence:
  assumes "old \<noteq> []"
  shows "\<not> contains old (a @ butlast old) \<Longrightarrow>
         str_replace old new (a @ old @ b) = a @ new @ str_replace old new b"
proof (induction a)
  case Nil
  from assms show ?case by (simp add: str_replace_at_front del: str_replace.simps)
next
  case (Cons x a)
  from Cons.prems have np: "\<not> is_prefix old ((x # a) @ butlast old)"
    and nc: "\<not> contains old (a @ butlast old)" by simp_all
  from np assms have "\<not> is_prefix old ((x # a) @ old @ b)"
    using is_prefix_long [of "x # a" old b] by simp
  then have "str_replace old new ((x # a) @ old @ b) = x # str_replace old new (a @ old @ b)"
    by simp
  with Cons.IH [OF nc] show ?case by simp
qed

lemma mset_sort_values_desc: "mset (sort_values_desc rows) = mset rows"
  by (induction rows) (auto simp: sort_values_desc_def)



lemma get_varimp_unfold:
  "get_varimp shapley top_n =
     rev (take top_n (sort_values_desc
       (map (\<lambda>(i, vals). (str_replace ''contrib_'' [] i, mean (map abs vals)))
          (filter (\<lambda>(i, vals). is_feature i) shapley))))"
proof -
  have "map (\<lambda>(feature, importance). (str_replace ''contrib_'' [] feature, importance))
          (map (\<lambda>(i, vals). (i, mean (map abs vals))) cs)
        = map (\<lambda>(i, vals). (str_replace ''contrib_'' [] i, mean (map abs vals))) cs"
    for cs :: "shapley_column list"
    by (induction cs) auto
  then show ?thesis by (simp add: get_varimp_def del: map_map)
qed

lemma length_sort_values_desc: "length (sort_values_desc rows) = length rows"
  using mset_sort_values_desc [of rows] by (metis size_mset)

lemma set_sort_values_desc: "set (sort_values_desc rows) = set rows"
  using mset_sort_values_desc [of rows] by (metis set_mset_mset)


lemma get_varimp_no_features:
  "(\<forall>c \<in> set shapley. \<not> is_feature (fst c)) \<Longrightarrow> get_varimp shapley top_n = []"
proof -
  assume "\<forall>c \<in> set shapley. \<not> is_feature (fst c)"
  then have "filter (\<lambda>(i, vals). is_feature i) shapley = []"
    by (auto simp: filter_empty_conv)
  then show ?thesis
    by (simp add: get_varimp_unfold sort_values_desc_def)
qed



text \<open>
  C3, as the code has it: for an attribution table without a feature column (none but
  the bias column and columns without \<open>contrib\<close> in their names) the ranker returns the
  empty list.
\<close>

theorem empty_ranking_without_features:
  assumes "\<forall>c \<in> set shapley. \<not> is_feature (fst c)"
  shows "get_varimp shapley top_n = []"
  using assms by (rule get_varimp_no_features)

theorem empty_ranking_without_features_witness:
  "get_varimp [(''contrib_bias'', [1 / 10, 1 / 10]), (''EmployeeNumber'', [1, 2])] 5 = []"
proof -
  have "\<forall>c \<in> set [(''contrib_bias'', [1 / 10, 1 / 10 :: real]), (''EmployeeNumber'', [1, 2])].
          \<not> is_feature (fst c)"
    by (simp add: is_feature_def)
  then show ?thesis by (rule empty_ranking_without_features)
qed

text \<open>
  C9: a column is selected as a feature if and only if its name has \<open>contrib\<close> somewhere
  in it and is not \<open>contrib_bias\<close>, and these columns are the ones ranked (without a
  limit on the number of entries, all of them).  The first \<open>contrib_\<close> of a name is
  removed wherever it stands, and so is every later one.  In the example a name with
  \<open>contrib\<close> in the middle and a bias column of another spelling are ranked, and both
  \<open>contrib_\<close> of \<open>contrib_a_contrib_b\<close> are removed.
\<close>

theorem feature_selection_by_substring:
  "(is_feature i \<longleftrightarrow> (\<exists>a b. i = a @ ''contrib'' @ b) \<and> i \<noteq> ''contrib_bias'')
   \<and> set (get_varimp shapley (length shapley))
       = (\<lambda>(i, vals). (str_replace ''contrib_'' [] i, mean (map abs vals)))
           ` {c \<in> set shapley. (\<exists>a b. fst c = a @ ''contrib'' @ b) \<and> fst c \<noteq> ''contrib_bias''}
   \<and> (\<not> contains ''contrib_'' (p @ ''contrib'') \<longrightarrow>
        str_replace ''contrib_'' [] (p @ ''contrib_'' @ s) = p @ str_replace ''contrib_'' [] s)
   \<and> get_varimp [(''my_contrib_x'', [1]), (''contrib_Bias'', [2]), (''contrib_a_contrib_b'', [3]),
                  (''id'', [1, 2]), (''contrib_bias'', [7])] 5
       = [(''my_x'', Some 1), (''Bias'', Some 2), (''a_b'', Some 3)]"
proof -
  let ?score = "\<lambda>(i, vals). (str_replace ''contrib_'' [] i, mean (map abs vals))"
  let ?features = "filter (\<lambda>(i, vals). is_feature i) shapley"
  have a: "is_feature i \<longleftrightarrow> (\<exists>a b. i = a @ ''contrib'' @ b) \<and> i \<noteq> ''contrib_bias''" for i
    by (simp only: is_feature_def contains_iff)
  have "length (map ?score ?features) \<le> length shapley" by simp
  then have "take (length shapley) (sort_values_desc (map ?score ?features))
      = sort_values_desc (map ?score ?features)"
    by (simp add: length_sort_values_desc)
  then have "set (get_varimp shapley (length shapley)) = ?score ` set ?features"
    by (simp add: get_varimp_unfold set_sort_values_desc)
  moreover have "set ?features
      = {c \<in> set shapley. (\<exists>a b. fst c = a @ ''contrib'' @ b) \<and> fst c \<noteq> ''contrib_bias''}"
    using a by (auto simp: case_prod_beta)
  ultimately have b: "set (get_varimp shapley (length shapley))
       = ?score ` {c \<in> set shapley. (\<exists>a b. fst c = a @ ''contrib'' @ b) \<and> fst c \<noteq> ''contrib_bias''}"
    by simp
  have c: "str_replace ''contrib_'' [] (p @ ''contrib_'' @ s) = p @ str_replace ''contrib_'' [] s"
    if "\<not> contains ''contrib_'' (p @ ''contrib'')"
    using str_replace_first_occurrence [of "''contrib_''" p "[]" s] that by simp
  have d: "get_varimp [(''my_contrib_x'', [1]), (''contrib_Bias'', [2]), (''contrib_a_contrib_b'', [3]),
                  (''id'', [1, 2]), (''contrib_bias'', [7])] 5
       = [(''my_x'', Some 1), (''Bias'', Some 2), (''a_b'', Some 3)]"
    by (simp add: get_varimp_def is_feature_def mean_def sort_values_desc_def del: not_None_eq)
  from a b c d show ?thesis by blast
qed

theorem feature_selection_by_substring_witness:
  "is_feature ''my_contrib_x''
   \<and> \<not> contains ''contrib_'' (''a_'' @ ''contrib'')
   \<and> str_replace ''contrib_'' [] (''a_'' @ ''contrib_'' @ ''b'')
       = ''a_'' @ str_replace ''contrib_'' [] ''b''"
proof -
  have "''my_contrib_x'' = ''my_'' @ ''contrib'' @ ''_x''" by simp
  moreover have "\<not> contains ''contrib_'' (''a_'' @ ''contrib'')" by simp
  ultimately show ?thesis
    using feature_selection_by_substring [of "''my_contrib_x''" "[]" "''a_''" "''b''"]
    by blast
qed

section \<open>Properties of the handlers\<close>

lemma add_card_frame [simp]:
  "client_threshold (add_card q name c) = client_threshold q"
  "client_initialized (add_card q name c) = client_initialized q"
  "app_predictions (add_card q name c) = app_predictions q"
  "app_shapley (add_card q name c) = app_shapley q"
  "args_threshold (add_card q name c) = args_threshold q"
  "triggered (add_card q name c) = triggered q"
  "threshold_writes (add_card q name c) = threshold_writes q"
  by (simp_all add: add_card_def)

lemma page_add_card [simp]:
  "page (add_card q name c) = (page q)(name \<mapsto> c)"
  by (simp add: add_card_def)

lemma clear_cards_frame [simp]:
  "client_threshold (clear_cards q) = client_threshold q"
  "client_initialized (clear_cards q) = client_initialized q"
  "app_predictions (clear_cards q) = app_predictions q"
  "app_shapley (clear_cards q) = app_shapley q"
  "args_threshold (clear_cards q) = args_threshold q"
  "triggered (clear_cards q) = triggered q"
  "threshold_writes (clear_cards q) = threshold_writes q"
  by (simp_all add: clear_cards_def)

lemma home_frame:
  "client_threshold (fst (home q)) = client_threshold q"
  "client_initialized (fst (home q)) = client_initialized q"
  "app_predictions (fst (home q)) = app_predictions q"
  "app_shapley (fst (home q)) = app_shapley q"
  "threshold_writes (fst (home q)) = threshold_writes q"
  by (simp_all add: home_def Let_def split: option.splits sum.splits)

lemma home_varimp_card:
  "page (fst (home q)) ''varimp_card'' = Some (PlotCard (get_varimp (app_shapley q) 5))"
  by (simp add: home_def Let_def split: option.splits sum.splits)

lemma home_threshold_card:
  "page (fst (home q)) ''threshold_card''
     = Some (SliderCard (case args_threshold q of None \<Rightarrow> client_threshold q | Some t \<Rightarrow> Some t))"
  by (simp add: home_def Let_def split: option.splits sum.splits)

lemma home_fallback:
  assumes "args_threshold q = None" and "client_threshold q = Some t"
  shows "page (fst (home q)) = page (fst (home (q\<lparr>args_threshold := Some t\<rparr>)))"
    and "snd (home q) = snd (home (q\<lparr>args_threshold := Some t\<rparr>))"
proof -
  let ?q = "q\<lparr>args_threshold := Some t\<rparr>"
  have c: "clear_cards ?q = (clear_cards q)\<lparr>args_threshold := Some t\<rparr>"
    by (simp add: clear_cards_def cong: if_cong)
  have a: "add_card (x\<lparr>args_threshold := Some t\<rparr>) name card
             = (add_card x name card)\<lparr>args_threshold := Some t\<rparr>" for x name card
    by (simp add: add_card_def)
  show "page (fst (home q)) = page (fst (home ?q))"
    using assms by (simp add: home_def Let_def c a split: option.splits sum.splits)
  show "snd (home q) = snd (home ?q)"
    using assms by (simp add: home_def Let_def c a split: option.splits sum.splits)
qed

lemma run_handler_frame:
  "client_threshold (fst (run_handler h q)) = client_threshold q"
  "client_initialized (fst (run_handler h q)) = client_initialized q"
  "app_predictions (fst (run_handler h q)) = app_predictions q"
  "app_shapley (fst (run_handler h q)) = app_shapley q"
  "threshold_writes (fst (run_handler h q)) = threshold_writes q"
  by (cases h; simp add: threshold_def render_employee_def home_frame)+

lemma run_on_frame:
  "client_threshold (fst (run_on hs q)) = client_threshold q
   \<and> client_initialized (fst (run_on hs q)) = client_initialized q"
proof (induction hs arbitrary: q)
  case Nil
  show ?case by simp
next
  case (Cons h hs)
  obtain q' e where r: "run_handler h q = (q', e)" by (cases "run_handler h q")
  from run_handler_frame(1,2) [of h q] r
  have q': "client_threshold q' = client_threshold q" "client_initialized q' = client_initialized q"
    by simp_all
  show ?case
  proof (cases e)
    case None
    with r Cons.IH [of q'] q' show ?thesis by simp
  next
    case (Some err)
    with r q' show ?thesis by simp
  qed
qed

lemma init_threshold: "client_threshold (fst (init q)) = Some (1 / 2)"
  by (simp add: init_def Let_def home_frame)

lemma serve_initialized:
  "client_initialized q \<Longrightarrow> serve q = run_on (triggered q) q"
  by (simp add: serve_def)

lemma serve_threshold:
  "client_threshold (fst (serve q))
     = (if client_initialized q then client_threshold q else Some (1 / 2))"
proof (cases "client_initialized q")
  case True
  then show ?thesis by (simp add: serve_initialized run_on_frame)
next
  case False
  obtain q1 e where i: "init q = (q1, e)" by (cases "init q")
  with init_threshold [of q] have t: "client_threshold q1 = Some (1 / 2)" by simp
  show ?thesis
  proof (cases e)
    case None
    with False i t show ?thesis by (simp add: serve_def run_on_frame)
  next
    case (Some err)
    with False i t show ?thesis by (simp add: serve_def)
  qed
qed

lemma serve_stays_initialized:
  "client_initialized q \<Longrightarrow> client_initialized (fst (serve q))"
  by (simp add: serve_initialized run_on_frame)

lemma receive_frame [simp]:
  "client_threshold (receive q r) = client_threshold q"
  "client_initialized (receive q r) = client_initialized q"
  "args_threshold (receive q r) = req_threshold r"
  "triggered (receive q r) = req_handlers r"
  "threshold_writes (receive q r) = threshold_writes q"
  "app_predictions (receive q r) = app_predictions q"
  "app_shapley (receive q r) = app_shapley q"
  by (simp_all add: receive_def)

lemma session_stored:
  "(client_initialized q \<longrightarrow> client_threshold q = Some (1 / 2)) \<Longrightarrow> rs \<noteq> [] \<Longrightarrow>
   client_threshold (session q rs) = Some (1 / 2)"
proof (induction rs arbitrary: q)
  case Nil
  then show ?case by simp
next
  case (Cons r rs)
  let ?q = "fst (serve (receive q r))"
  from Cons.prems(1) have t: "client_threshold ?q = Some (1 / 2)"
    by (simp add: serve_threshold)
  show ?case
  proof (cases rs)
    case Nil
    with t show ?thesis by simp
  next
    case (Cons r' rs')
    with Cons.IH [of ?q] t show ?thesis by simp
  qed
qed

lemma session_initialized_nonempty:
  "client_initialized (session (fresh predictions shapley) rs) \<Longrightarrow> rs \<noteq> []"
  by (cases rs) (simp_all add: fresh_def)

lemma init_shapley: "app_shapley (fst (init q)) = app_shapley q"
  by (simp add: init_def Let_def home_frame)

lemma run_on_shapley: "app_shapley (fst (run_on hs q)) = app_shapley q"
proof (induction hs arbitrary: q)
  case Nil
  show ?case by simp
next
  case (Cons h hs)
  obtain q' e where r: "run_handler h q = (q', e)" by (cases "run_handler h q")
  with run_handler_frame(4) [of h q] have q': "app_shapley q' = app_shapley q" by simp
  show ?case
  proof (cases e)
    case None
    with r Cons.IH [of q'] q' show ?thesis by simp
  next
    case (Some err)
    with r q' show ?thesis by simp
  qed
qed

lemma serve_shapley: "app_shapley (fst (serve q)) = app_shapley q"
proof (cases "client_initialized q")
  case True
  then show ?thesis by (simp add: serve_initialized run_on_shapley)
next
  case False
  obtain q1 e where i: "init q = (q1, e)" by (cases "init q")
  with init_shapley [of q] have t: "app_shapley q1 = app_shapley q" by simp
  show ?thesis
  proof (cases e)
    case None
    with False i t show ?thesis by (simp add: serve_def run_on_shapley)
  next
    case (Some err)
    with False i t show ?thesis by (simp add: serve_def)
  qed
qed

lemma session_shapley: "app_shapley (session q rs) = app_shapley q"
  by (induction rs arbitrary: q) (simp_all add: serve_shapley receive_def)

lemma session_initialized:
  "client_initialized q \<Longrightarrow> client_initialized (session q rs)"
  by (induction rs arbitrary: q) (simp_all add: serve_stays_initialized)

lemma home_example:
  assumes "app_predictions q = example_predictions" and "app_shapley q = example_shapley"
    and "args_threshold q = None" and "client_threshold q = Some (1 / 2)"
  shows "snd (home q) = None"
proof -
  have v: "get_varimp example_shapley 5 = [(''B'', Some (3 / 10)), (''A'', Some (9 / 10))]"
    by (simp add: example_shapley_def get_varimp_def is_feature_def mean_def
        sort_values_desc_def del: not_None_eq)
  from assms show ?thesis
    by (simp add: home_def Let_def v example_predictions_def churned_employees_def
        stats_card_def py_div_def py_round_def mean_def round_half_even_def row_get_def)
qed

lemma home_stats_error:
  assumes "(case args_threshold q of None \<Rightarrow> client_threshold q | Some t' \<Rightarrow> Some t') = Some t"
    and "stats_card (churned_employees (app_predictions q) t) (app_predictions q) = Inl e"
  shows "snd (home q) = Some e"
  using assms by (cases "args_threshold q") (simp_all add: home_def Let_def)

lemma home_stats_card:
  assumes "(case args_threshold q of None \<Rightarrow> client_threshold q | Some t' \<Rightarrow> Some t') = Some t"
    and "stats_card (churned_employees (app_predictions q) t) (app_predictions q) = Inr s"
  shows "page (fst (home q)) ''stats_card'' = Some (StatsCard s)"
  using assms
  by (cases "args_threshold q") (simp_all add: home_def Let_def split: sum.splits)

lemma home_table_card:
  assumes "(case args_threshold q of None \<Rightarrow> client_threshold q | Some t' \<Rightarrow> Some t') = Some t"
    and "stats_card (churned_employees (app_predictions q) t) (app_predictions q) = Inr s"
    and "table_rows ([''EmployeeNumber''] @ map fst (get_varimp (app_shapley q) 5) @ [''Prediction''])
           (churned_employees (app_predictions q) t) = Inr trs"
  shows "page (fst (home q)) ''table_card''
           = Some (TableCard ([''EmployeeNumber''] @ map fst (get_varimp (app_shapley q) 5)
                                @ [''Prediction'']) trs)"
    and "snd (home q) = None"
  using assms by (cases "args_threshold q"; simp add: home_def Let_def)+

lemma home_table_error:
  assumes "(case args_threshold q of None \<Rightarrow> client_threshold q | Some t' \<Rightarrow> Some t') = Some t"
    and "stats_card (churned_employees (app_predictions q) t) (app_predictions q) = Inr s"
    and "table_rows ([''EmployeeNumber''] @ map fst (get_varimp (app_shapley q) 5) @ [''Prediction''])
           (churned_employees (app_predictions q) t) = Inl e"
  shows "snd (home q) = Some e"
  using assms by (cases "args_threshold q") (simp_all add: home_def Let_def)

lemma init_frame:
  "threshold_writes (fst (init q)) = threshold_writes q @ [1 / 2]"
  "app_predictions (fst (init q)) = app_predictions q"
  "client_initialized (fst (init q)) = client_initialized q"
  by (simp_all add: init_def Let_def home_frame)

lemma run_on_static:
  "threshold_writes (fst (run_on hs q)) = threshold_writes q
   \<and> app_predictions (fst (run_on hs q)) = app_predictions q"
proof (induction hs arbitrary: q)
  case Nil
  show ?case by simp
next
  case (Cons h hs)
  obtain q' e where r: "run_handler h q = (q', e)" by (cases "run_handler h q")
  from run_handler_frame(5,3) [of h q] r
  have q': "threshold_writes q' = threshold_writes q" "app_predictions q' = app_predictions q"
    by simp_all
  show ?case
  proof (cases e)
    case None
    with r Cons.IH [of q'] q' show ?thesis by simp
  next
    case (Some err)
    with r q' show ?thesis by simp
  qed
qed

lemma serve_static:
  "threshold_writes (fst (serve q))
     = (if client_initialized q then threshold_writes q else threshold_writes q @ [1 / 2])"
  "app_predictions (fst (serve q)) = app_predictions q"
  "client_initialized (fst (serve q)) \<longleftrightarrow> client_initialized q \<or> snd (init q) = None"
proof -
  obtain q1 e where i: "init q = (q1, e)" by (cases "init q")
  with init_frame [of q]
  have q1: "threshold_writes q1 = threshold_writes q @ [1 / 2]"
    "app_predictions q1 = app_predictions q" "client_initialized q1 = client_initialized q"
    by simp_all
  show "threshold_writes (fst (serve q))
     = (if client_initialized q then threshold_writes q else threshold_writes q @ [1 / 2])"
    using i q1 by (cases e) (simp_all add: serve_def run_on_static)
  show "app_predictions (fst (serve q)) = app_predictions q"
    using i q1 by (cases e) (simp_all add: serve_def run_on_static)
  show "client_initialized (fst (serve q)) \<longleftrightarrow> client_initialized q \<or> snd (init q) = None"
    using i q1 by (cases e) (simp_all add: serve_def run_on_frame)
qed

lemma session_predictions: "app_predictions (session q rs) = app_predictions q"
  by (induction rs arbitrary: q) (simp_all add: serve_static)

lemma session_writes_initialized:
  "client_initialized q \<Longrightarrow>
   threshold_writes (session q rs) = threshold_writes q
   \<and> client_threshold (session q rs) = client_threshold q"
proof (induction rs arbitrary: q)
  case Nil
  show ?case by simp
next
  case (Cons r rs)
  let ?q = "fst (serve (receive q r))"
  from Cons.prems have "client_initialized ?q" by (simp add: serve_stays_initialized)
  from Cons.IH [OF this] Cons.prems show ?case
    by (simp add: serve_static serve_threshold)
qed

lemma session_writes_once:
  assumes "snd (init (receive (fresh predictions shapley) r)) = None"
  shows "threshold_writes (session (fresh predictions shapley) (r # rs)) = [1 / 2]"
proof -
  let ?q = "fst (serve (receive (fresh predictions shapley) r))"
  from assms have "client_initialized ?q" by (simp add: serve_static)
  from session_writes_initialized [OF this, of rs]
  show ?thesis by (simp add: serve_static fresh_def)
qed

lemma session_writes_values:
  "set (threshold_writes (session q rs)) \<subseteq> set (threshold_writes q) \<union> {1 / 2}"
proof (induction rs arbitrary: q)
  case Nil
  show ?case by auto
next
  case (Cons r rs)
  let ?q = "fst (serve (receive q r))"
  have "set (threshold_writes ?q) \<subseteq> set (threshold_writes q) \<union> {1 / 2}"
    by (auto simp add: serve_static)
  with Cons.IH [of ?q] show ?case by auto
qed

lemma stats_card_example:
  "stats_card (churned_employees example_predictions (1 / 2)) example_predictions
     = Inr \<lparr>number_of_employees = 1, fraction_of_employees = 1 / 2, average_years = 4\<rparr>"
  "stats_card (churned_employees example_predictions (1 / 10)) example_predictions
     = Inr \<lparr>number_of_employees = 2, fraction_of_employees = 1, average_years = 3\<rparr>"
  "stats_card [] example_predictions = Inl ValueError"
  "stats_card [] (tl example_predictions) = Inl ValueError"
  by (simp_all add: example_predictions_def churned_employees_def stats_card_def py_div_def
      py_round_def mean_def round_half_even_def)

text \<open>
  C1 does not hold of the code: on the example table no score exceeds the threshold
  0.9, the mean of the empty selection is NaN, and rounding it raises ValueError, so
  \<open>home\<close> stops with that error after the slider card and renders no stats card.
\<close>

theorem empty_selection_raises:
  "churned_employees example_predictions (9 / 10) = []
   \<and> stats_card (churned_employees example_predictions (9 / 10)) example_predictions
       = Inl ValueError
   \<and> snd (home ((fresh example_predictions example_shapley)
              \<lparr>client_threshold := Some (1 / 2), args_threshold := Some (9 / 10)\<rparr>))
       = Some ValueError
   \<and> page (fst (home ((fresh example_predictions example_shapley)
              \<lparr>client_threshold := Some (1 / 2), args_threshold := Some (9 / 10)\<rparr>)))
        ''stats_card'' = None"
proof -
  have c: "churned_employees example_predictions (9 / 10) = []"
    by (simp add: example_predictions_def churned_employees_def)
  have s: "stats_card [] example_predictions = Inl ValueError"
    by (rule stats_card_empty_selection) (simp add: example_predictions_def)
  have h: "home ((fresh example_predictions example_shapley)
              \<lparr>client_threshold := Some (1 / 2), args_threshold := Some (9 / 10)\<rparr>)
      = (add_card (add_card (add_card (add_card (clear_cards
           ((fresh example_predictions example_shapley)
              \<lparr>client_threshold := Some (1 / 2), args_threshold := Some (9 / 10)\<rparr>))
           ''predictions_card'' (VegaCard example_predictions))
           ''varimp_card'' (PlotCard (get_varimp example_shapley 5)))
           ''description_card'' TextCard)
           ''threshold_card'' (SliderCard (Some (9 / 10))), Some ValueError)"
    by (simp add: home_def Let_def c s fresh_def)
  show ?thesis
    unfolding h by (simp add: c s fresh_def clear_cards_def)
qed

text \<open>
  C3 as stated does not hold of the code. The ranker raises nothing: for the table that
  has the bias column only, it returns the empty ranking, and the first visit completes
  without an error and renders the empty ranking.
\<close>

theorem ranking_without_features_counterexample:
  "filter (\<lambda>(i, vals). is_feature i) [(''contrib_bias'', [1 / 10, 1 / 10])] = []
   \<and> get_varimp [(''contrib_bias'', [1 / 10, 1 / 10])] 5 = []
   \<and> snd (init (fresh example_predictions [(''contrib_bias'', [1 / 10, 1 / 10])])) = None
   \<and> page (fst (init (fresh example_predictions [(''contrib_bias'', [1 / 10, 1 / 10])])))
        ''varimp_card'' = Some (PlotCard [])"
proof -
  have v: "get_varimp [(''contrib_bias'', [1 / 10, 1 / 10])] 5 = []"
    by (simp add: get_varimp_def is_feature_def sort_values_desc_def)
  have e: "snd (init (fresh example_predictions [(''contrib_bias'', [1 / 10, 1 / 10])])) = None"
    by (simp add: init_def home_def Let_def v fresh_def example_predictions_def
        churned_employees_def stats_card_def py_div_def py_round_def mean_def
        round_half_even_def row_get_def)
  have p: "page (fst (init (fresh example_predictions [(''contrib_bias'', [1 / 10, 1 / 10])])))
        ''varimp_card'' = Some (PlotCard [])"
    by (simp add: init_def Let_def home_varimp_card home_frame v fresh_def)
  from v e p show ?thesis by (simp add: is_feature_def)
qed

text \<open>
  C8: the feature importance ranking that \<open>home\<close> renders does not depend on the
  threshold: for any two thresholds of the request and any two stored thresholds the
  ranking card is the same, namely the ranking of the attribution table, and no request
  changes that table.
\<close>

theorem ranking_independent_of_threshold:
  "page (fst (home (q\<lparr>args_threshold := t1, client_threshold := c1\<rparr>))) ''varimp_card''
     = page (fst (home (q\<lparr>args_threshold := t2, client_threshold := c2\<rparr>))) ''varimp_card''
   \<and> page (fst (home q)) ''varimp_card'' = Some (PlotCard (get_varimp (app_shapley q) 5))
   \<and> app_shapley (fst (home q)) = app_shapley q
   \<and> app_shapley (session q rs) = app_shapley q"
  by (simp add: home_varimp_card home_frame session_shapley)

theorem ranking_independent_of_threshold_witness:
  "page (fst (home ((fresh example_predictions example_shapley)
          \<lparr>args_threshold := Some (1 / 10), client_threshold := Some (1 / 2)\<rparr>))) ''varimp_card''
     = page (fst (home ((fresh example_predictions example_shapley)
          \<lparr>args_threshold := Some (9 / 10), client_threshold := Some (1 / 2)\<rparr>))) ''varimp_card''"
  using ranking_independent_of_threshold
    [where q = "fresh example_predictions example_shapley" and ?t1.0 = "Some (1 / 10)"
       and ?c1.0 = "Some (1 / 2)" and ?t2.0 = "Some (9 / 10)" and ?c2.0 = "Some (1 / 2)"
       and rs = "[]"]
  by blast

text \<open>
  C10, as the code has it: \<open>init\<close> assigns 0.5 to the stored threshold
  \<open>q.client.threshold\<close>, and it is the only writer: \<open>home\<close>, every handler and \<open>run_on\<close> leave the stored threshold
  and the history of its writes as they are.  Once the session is initialized, \<open>serve\<close>
  runs the handlers without \<open>init\<close>, the session stays initialized, and no further write
  happens.  So the threshold is written exactly once in every session whose first
  request completes \<open>init\<close>; in any session every write is of 0.5, and after any request
  the stored threshold is 0.5.

  Every recompute, by \<open>home\<close> or by \<open>threshold\<close>, uses the threshold of the request
  when there is one and the stored one otherwise: the slider shows it, the stats card
  holds the stats of the rows whose score exceeds it, the table card has the rows of
  exactly these employees, and the exception, if any, is that of these stats or rows.
  Hence a recompute without a threshold, after any earlier requests with any
  thresholds, renders the same page (and raises the same) as with the threshold 0.5.
\<close>

theorem stored_threshold_only_initialised:
  "client_threshold (fst (init q)) = Some (1 / 2)
   \<and> threshold_writes (fst (init q)) = threshold_writes q @ [1 / 2]
   \<and> client_threshold (fst (home q)) = client_threshold q
   \<and> threshold_writes (fst (home q)) = threshold_writes q
   \<and> client_threshold (fst (run_handler h q)) = client_threshold q
   \<and> threshold_writes (fst (run_handler h q)) = threshold_writes q
   \<and> client_threshold (fst (run_on hs q)) = client_threshold q
   \<and> threshold_writes (fst (run_on hs q)) = threshold_writes q
   \<and> (client_initialized q \<longrightarrow>
        serve q = run_on (triggered q) q \<and> client_initialized (fst (serve q)))
   \<and> (client_initialized q \<longrightarrow>
        threshold_writes (session q rs) = threshold_writes q
        \<and> client_threshold (session q rs) = client_threshold q)
   \<and> (snd (init (receive (fresh predictions shapley) r0)) = None \<longrightarrow>
        threshold_writes (session (fresh predictions shapley) (r0 # rs)) = [1 / 2])
   \<and> set (threshold_writes (session (fresh predictions shapley) rs)) \<subseteq> {1 / 2}
   \<and> (rs \<noteq> [] \<longrightarrow> client_threshold (session (fresh predictions shapley) rs) = Some (1 / 2))
   \<and> run_handler Home q = home q
   \<and> run_handler Threshold q = home q
   \<and> page (fst (home q)) ''threshold_card''
       = Some (SliderCard (case args_threshold q of None \<Rightarrow> client_threshold q | Some t' \<Rightarrow> Some t'))
   \<and> ((case args_threshold q of None \<Rightarrow> client_threshold q | Some t' \<Rightarrow> Some t') = Some t \<longrightarrow>
        (\<forall>e. stats_card (churned_employees (app_predictions q) t) (app_predictions q) = Inl e \<longrightarrow>
              snd (home q) = Some e)
        \<and> (\<forall>s. stats_card (churned_employees (app_predictions q) t) (app_predictions q) = Inr s \<longrightarrow>
              page (fst (home q)) ''stats_card'' = Some (StatsCard s)
              \<and> (\<forall>trs. table_rows ([''EmployeeNumber''] @ map fst (get_varimp (app_shapley q) 5)
                                       @ [''Prediction''])
                           (churned_employees (app_predictions q) t) = Inr trs \<longrightarrow>
                     page (fst (home q)) ''table_card''
                       = Some (TableCard ([''EmployeeNumber'']
                                 @ map fst (get_varimp (app_shapley q) 5) @ [''Prediction'']) trs)
                     \<and> snd (home q) = None)
              \<and> (\<forall>e. table_rows ([''EmployeeNumber''] @ map fst (get_varimp (app_shapley q) 5)
                                       @ [''Prediction''])
                           (churned_employees (app_predictions q) t) = Inl e \<longrightarrow>
                     snd (home q) = Some e)))
   \<and> (client_initialized (session (fresh predictions shapley) rs)
        \<and> req_threshold r = None
        \<and> (req_handlers r = [Home] \<or> req_handlers r = [Threshold]) \<longrightarrow>
        page (fst (serve (receive (session (fresh predictions shapley) rs) r)))
          = page (fst (home ((receive (session (fresh predictions shapley) rs) r)
                       \<lparr>args_threshold := Some (1 / 2)\<rparr>)))
        \<and> snd (serve (receive (session (fresh predictions shapley) rs) r))
          = snd (home ((receive (session (fresh predictions shapley) rs) r)
                       \<lparr>args_threshold := Some (1 / 2)\<rparr>)))"
proof -
  let ?s = "session (fresh predictions shapley) rs"
  let ?eff = "case args_threshold q of None \<Rightarrow> client_threshold q | Some t' \<Rightarrow> Some t'"
  let ?churned = "churned_employees (app_predictions q) t"
  let ?cols = "[''EmployeeNumber''] @ map fst (get_varimp (app_shapley q) 5) @ [''Prediction'']"
  have a1: "client_threshold (fst (init q)) = Some (1 / 2)" by (rule init_threshold)
  have a2: "threshold_writes (fst (init q)) = threshold_writes q @ [1 / 2]"
    by (rule init_frame)
  have b1: "client_threshold (fst (home q)) = client_threshold q" by (rule home_frame)
  have b2: "threshold_writes (fst (home q)) = threshold_writes q" by (rule home_frame)
  have c1: "client_threshold (fst (run_handler h q)) = client_threshold q"
    by (rule run_handler_frame)
  have c2: "threshold_writes (fst (run_handler h q)) = threshold_writes q"
    by (rule run_handler_frame)
  have d1: "client_threshold (fst (run_on hs q)) = client_threshold q"
    by (simp add: run_on_frame)
  have d2: "threshold_writes (fst (run_on hs q)) = threshold_writes q"
    by (simp add: run_on_static)
  have e1: "client_initialized q \<longrightarrow>
        serve q = run_on (triggered q) q \<and> client_initialized (fst (serve q))"
    by (simp add: serve_initialized run_on_frame)
  have e2: "client_initialized q \<longrightarrow>
        threshold_writes (session q rs) = threshold_writes q
        \<and> client_threshold (session q rs) = client_threshold q"
    using session_writes_initialized [of q rs] by blast
  have e3: "snd (init (receive (fresh predictions shapley) r0)) = None \<longrightarrow>
        threshold_writes (session (fresh predictions shapley) (r0 # rs)) = [1 / 2]"
    using session_writes_once [of predictions shapley r0 rs] by blast
  have e4: "set (threshold_writes ?s) \<subseteq> {1 / 2}"
    using session_writes_values [of "fresh predictions shapley" rs] by (simp add: fresh_def)
  have f: "client_threshold ?s = Some (1 / 2)" if "rs \<noteq> []"
    using that by (intro session_stored) (simp_all add: fresh_def)
  then have f': "rs \<noteq> [] \<longrightarrow> client_threshold ?s = Some (1 / 2)" by blast
  have g1: "run_handler Home q = home q" by simp
  have g2: "run_handler Threshold q = home q" by (simp add: threshold_def)
  have g3: "page (fst (home q)) ''threshold_card'' = Some (SliderCard ?eff)"
    by (rule home_threshold_card)
  have h: "?eff = Some t \<longrightarrow>
        (\<forall>e. stats_card ?churned (app_predictions q) = Inl e \<longrightarrow> snd (home q) = Some e)
        \<and> (\<forall>s. stats_card ?churned (app_predictions q) = Inr s \<longrightarrow>
              page (fst (home q)) ''stats_card'' = Some (StatsCard s)
              \<and> (\<forall>trs. table_rows ?cols ?churned = Inr trs \<longrightarrow>
                     page (fst (home q)) ''table_card'' = Some (TableCard ?cols trs)
                     \<and> snd (home q) = None)
              \<and> (\<forall>e. table_rows ?cols ?churned = Inl e \<longrightarrow> snd (home q) = Some e))"
  proof (intro impI conjI allI)
    fix e
    assume "?eff = Some t" and "stats_card ?churned (app_predictions q) = Inl e"
    then show "snd (home q) = Some e" by (rule home_stats_error)
  next
    fix s
    assume "?eff = Some t" and "stats_card ?churned (app_predictions q) = Inr s"
    then show "page (fst (home q)) ''stats_card'' = Some (StatsCard s)"
      by (rule home_stats_card)
  next
    fix s trs
    assume "?eff = Some t" and "stats_card ?churned (app_predictions q) = Inr s"
      and "table_rows ?cols ?churned = Inr trs"
    then show "page (fst (home q)) ''table_card'' = Some (TableCard ?cols trs)"
      by (rule home_table_card)
  next
    fix s trs
    assume "?eff = Some t" and "stats_card ?churned (app_predictions q) = Inr s"
      and "table_rows ?cols ?churned = Inr trs"
    then show "snd (home q) = None" by (rule home_table_card)
  next
    fix s e
    assume "?eff = Some t" and "stats_card ?churned (app_predictions q) = Inr s"
      and "table_rows ?cols ?churned = Inl e"
    then show "snd (home q) = Some e" by (rule home_table_error)
  qed
  have i: "client_initialized ?s \<and> req_threshold r = None
        \<and> (req_handlers r = [Home] \<or> req_handlers r = [Threshold]) \<longrightarrow>
        page (fst (serve (receive ?s r)))
          = page (fst (home ((receive ?s r)\<lparr>args_threshold := Some (1 / 2)\<rparr>)))
        \<and> snd (serve (receive ?s r))
          = snd (home ((receive ?s r)\<lparr>args_threshold := Some (1 / 2)\<rparr>))"
  proof (intro impI, elim conjE)
    assume init: "client_initialized ?s" and r: "req_threshold r = None"
      and hs: "req_handlers r = [Home] \<or> req_handlers r = [Threshold]"
    from init have "rs \<noteq> []" by (rule session_initialized_nonempty)
    then have t: "client_threshold (receive ?s r) = Some (1 / 2)" by (simp add: f)
    from r have n: "args_threshold (receive ?s r) = None" by simp
    from init have "serve (receive ?s r) = run_on (req_handlers r) (receive ?s r)"
      by (simp add: serve_initialized)
    also from hs have "\<dots> = home (receive ?s r)"
      by (cases "home (receive ?s r)") (auto simp add: threshold_def split: option.splits)
    finally have sv: "serve (receive ?s r) = home (receive ?s r)" .
    from home_fallback [OF n t]
    show "page (fst (serve (receive ?s r)))
          = page (fst (home ((receive ?s r)\<lparr>args_threshold := Some (1 / 2)\<rparr>)))
        \<and> snd (serve (receive ?s r))
          = snd (home ((receive ?s r)\<lparr>args_threshold := Some (1 / 2)\<rparr>))"
      by (simp add: sv)
  qed
  show ?thesis
    by (intro conjI) (fact a1 a2 b1 b2 c1 c2 d1 d2 e1 e2 e3 e4 f' g1 g2 g3 h i)+
qed

theorem stored_threshold_only_initialised_witness:
  "client_initialized (session (fresh example_predictions example_shapley)
       [\<lparr>req_threshold = None, req_handlers = []\<rparr>,
        \<lparr>req_threshold = Some (3 / 10), req_handlers = [Threshold]\<rparr>])
   \<and> threshold_writes (session (fresh example_predictions example_shapley)
       [\<lparr>req_threshold = None, req_handlers = []\<rparr>,
        \<lparr>req_threshold = Some (3 / 10), req_handlers = [Threshold]\<rparr>]) = [1 / 2]
   \<and> page (fst (serve (receive (session (fresh example_predictions example_shapley)
       [\<lparr>req_threshold = None, req_handlers = []\<rparr>,
        \<lparr>req_threshold = Some (3 / 10), req_handlers = [Threshold]\<rparr>])
       \<lparr>req_threshold = None, req_handlers = [Home]\<rparr>))) ''threshold_card''
      = Some (SliderCard (Some (1 / 2)))
   \<and> page (fst (serve (receive (session (fresh example_predictions example_shapley)
       [\<lparr>req_threshold = None, req_handlers = []\<rparr>,
        \<lparr>req_threshold = Some (3 / 10), req_handlers = [Threshold]\<rparr>])
       \<lparr>req_threshold = None, req_handlers = [Home]\<rparr>))) ''stats_card''
      = Some (StatsCard \<lparr>number_of_employees = 1, fraction_of_employees = 1 / 2,
                         average_years = 4\<rparr>)
   \<and> page (fst (home ((fresh example_predictions example_shapley)
          \<lparr>client_threshold := Some (1 / 2), args_threshold := Some (1 / 10)\<rparr>))) ''stats_card''
      = Some (StatsCard \<lparr>number_of_employees = 2, fraction_of_employees = 1,
                         average_years = 3\<rparr>)"
proof -
  let ?f = "fresh example_predictions example_shapley"
  let ?visit = "\<lparr>req_threshold = None, req_handlers = []\<rparr>"
  let ?slide = "\<lparr>req_threshold = Some (3 / 10), req_handlers = [Threshold]\<rparr>"
  let ?event = "\<lparr>req_threshold = None, req_handlers = [Home]\<rparr>"
  let ?s = "session ?f [?visit, ?slide]"
  let ?q = "(receive ?s ?event)\<lparr>args_threshold := Some (1 / 2)\<rparr>"
  let ?q' = "?f\<lparr>client_threshold := Some (1 / 2), args_threshold := Some (1 / 10)\<rparr>"
  have v: "snd (init (receive ?f ?visit)) = None"
    unfolding init_def Let_def
    by (rule home_example) (simp_all add: fresh_def receive_def)
  then have "client_initialized (fst (serve (receive ?f ?visit)))"
    by (simp add: serve_static)
  then have init: "client_initialized ?s"
    by (simp add: serve_stays_initialized)
  have p: "app_predictions ?q = example_predictions"
    by (simp add: session_predictions fresh_def del: session.simps)
  have p': "app_predictions ?q' = example_predictions"
    by (simp add: fresh_def)
  note 1 = stored_threshold_only_initialised
    [where q = ?q and h = Home and hs = "[]" and rs = "[?visit, ?slide]" and t = "1 / 2"
       and predictions = example_predictions and shapley = example_shapley and r = ?event
       and ?r0.0 = ?visit]
  note 2 = stored_threshold_only_initialised
    [where q = ?q' and h = Home and hs = "[]" and rs = "[]" and t = "1 / 10"
       and predictions = example_predictions and shapley = example_shapley and r = ?event
       and ?r0.0 = ?visit]
  note 3 = stored_threshold_only_initialised
    [where q = ?q' and h = Home and hs = "[]" and rs = "[?slide]" and t = "1 / 10"
       and predictions = example_predictions and shapley = example_shapley and r = ?event
       and ?r0.0 = ?visit]
  from 1 init
  have s: "page (fst (serve (receive ?s ?event))) = page (fst (home ?q))"
    by simp
  from 1 have c: "page (fst (home ?q)) ''threshold_card'' = Some (SliderCard (Some (1 / 2)))"
    by simp
  from 1 p stats_card_example(1)
  have st: "page (fst (home ?q)) ''stats_card''
      = Some (StatsCard \<lparr>number_of_employees = 1, fraction_of_employees = 1 / 2,
                         average_years = 4\<rparr>)"
    by simp
  from 2 p' stats_card_example(2)
  have st': "page (fst (home ?q')) ''stats_card''
      = Some (StatsCard \<lparr>number_of_employees = 2, fraction_of_employees = 1,
                         average_years = 3\<rparr>)"
    by simp
  from 3 v
  have w: "threshold_writes (session ?f [?visit, ?slide]) = [1 / 2]"
    by blast
  from init w s c st st' show ?thesis by simp
qed

text \<open>
  C10 as stated does not hold of the code: the stored threshold can be written more than
  once in a session.  While \<open>init\<close> has not returned without an exception, \<open>serve\<close> does
  not mark the session initialized and runs \<open>init\<close>, with its write, again at the next
  request.  On the example tables, a first request that carries the threshold 0.9 makes
  \<open>init\<close> raise ValueError, and the next request writes 0.5 a second time; on a table
  whose scores are all at most 0.5, every visit does.
\<close>

theorem stored_threshold_written_twice_counterexample:
  "threshold_writes (session (fresh example_predictions example_shapley)
       [\<lparr>req_threshold = Some (9 / 10), req_handlers = [Threshold]\<rparr>,
        \<lparr>req_threshold = None, req_handlers = []\<rparr>]) = [1 / 2, 1 / 2]
   \<and> snd (serve (receive (fresh example_predictions example_shapley)
        \<lparr>req_threshold = Some (9 / 10), req_handlers = [Threshold]\<rparr>)) = Some ValueError
   \<and> threshold_writes (session (fresh (tl example_predictions) example_shapley)
       [\<lparr>req_threshold = None, req_handlers = []\<rparr>,
        \<lparr>req_threshold = None, req_handlers = []\<rparr>]) = [1 / 2, 1 / 2]"
proof -
  let ?f = "fresh example_predictions example_shapley"
  let ?g = "fresh (tl example_predictions) example_shapley"
  let ?slide = "\<lparr>req_threshold = Some (9 / 10), req_handlers = [Threshold]\<rparr>"
  let ?visit = "\<lparr>req_threshold = None, req_handlers = []\<rparr>"
  have c: "churned_employees example_predictions (9 / 10) = []"
    "churned_employees (tl example_predictions) (1 / 2) = []"
    by (simp_all add: example_predictions_def churned_employees_def)
  have i: "snd (init (receive ?f ?slide)) = Some ValueError"
    unfolding init_def Let_def
    by (rule home_stats_error [where t = "9 / 10"])
      (simp_all add: fresh_def receive_def c stats_card_example)
  have j: "snd (init (receive ?g ?visit)) = Some ValueError"
    unfolding init_def Let_def
    by (rule home_stats_error [where t = "1 / 2"])
      (simp_all add: fresh_def receive_def c stats_card_example)
  have n: "\<not> client_initialized ?f" "\<not> client_initialized ?g"
    "threshold_writes ?f = []" "threshold_writes ?g = []"
    by (simp_all add: fresh_def)
  have e: "snd (serve (receive ?f ?slide)) = Some ValueError"
    using i n by (cases "init (receive ?f ?slide)") (simp add: serve_def)
  from i j n e show ?thesis by (simp add: serve_static)
qed

end
